theory Spec2Isabelle
  imports Complex_Main
begin

section \<open>Errors\<close>

text \<open>
  The exceptions the expense manager can raise. The three domain errors are the classes
  of \<^verbatim>\<open>currency.py\<close> and \<^verbatim>\<open>manager.py\<close>; \<open>KeyError\<close> is what indexing a \<^verbatim>\<open>dict\<close> with
  an absent key raises (it carries the key), \<open>ZeroDivisionError\<close> is what \<^verbatim>\<open>/\<close> raises
  on a zero divisor, \<open>OverflowError\<close> is what arithmetic raises when it has to convert
  an \<^verbatim>\<open>int\<close> that is too large to a \<^verbatim>\<open>float\<close>.
\<close>

datatype error =
    CurrencyNotSupportedError
  | WalletExistsError
  | WalletNotFoundError
  | KeyError string
  | ZeroDivisionError
  | OverflowError

section \<open>Python numbers\<close>

text \<open>
  Amounts, balances and rates are Python numbers: an \<^verbatim>\<open>int\<close> (unbounded) or a \<^verbatim>\<open>float\<close>
  (IEEE 754 binary64, every operation rounded to nearest, ties to even).
\<close>

subsection \<open>Binary64 floats\<close>

text \<open>
  A finite float is given by the rational it stands for (\<open>Finite 0\<close> is \<open>0.0\<close>); the
  negative zero, the two infinities and NaN are values of their own.
\<close>

datatype f64 = Finite rat | NegZero | PosInf | NegInf | NaN

text \<open>The number of binary digits of a positive integer (\<^verbatim>\<open>int.bit_length\<close>).\<close>

function bit_length :: "int \<Rightarrow> int" where
  "bit_length n =
     (if n \<le> 0 then 0
      else if 18446744073709551616 \<le> n then 64 + bit_length (n div 18446744073709551616)
      else 1 + bit_length (n div 2))"
  by pat_completeness auto
termination
  by (relation "measure nat") auto

definition pow2 :: "int \<Rightarrow> rat" where
  "pow2 k = (if 0 \<le> k then 2 ^ nat k else 1 / 2 ^ nat (- k))"

text \<open>For positive \<open>q\<close>, the \<open>k\<close> with \<open>2 ^ k \<le> q < 2 ^ (k + 1)\<close>.\<close>

definition floor_log2 :: "rat \<Rightarrow> int" where
  "floor_log2 q =
     (if 1 \<le> q then bit_length \<lfloor>q\<rfloor> - 1 else - bit_length (\<lceil>1 / q\<rceil> - 1))"

definition round_half_even :: "rat \<Rightarrow> int" where
  "round_half_even r =
     (let f = \<lfloor>r\<rfloor>; d = r - of_int f
      in if d < 1 / 2 then f else if 1 / 2 < d then f + 1 else if even f then f else f + 1)"

text \<open>
  Rounding a rational to the nearest float. Around \<open>q\<close> the floats are the multiples of
  \<open>2 ^ e\<close>, with 53 significant bits and \<open>e\<close> at least \<open>-1074\<close> (the subnormal range); a
  result of \<open>2 ^ 1024\<close> or more overflows to an infinity, a result of 0 keeps the sign.
\<close>

definition f64_round :: "rat \<Rightarrow> f64" where
  "f64_round q =
     (if q = 0 then Finite 0
      else
        let e = max (floor_log2 \<bar>q\<bar> - 52) (- 1074);
            n = round_half_even (\<bar>q\<bar> / pow2 e);
            v = of_int n * pow2 e
        in if pow2 1024 \<le> v then (if 0 < q then PosInf else NegInf)
           else if n = 0 then (if 0 < q then Finite 0 else NegZero)
           else Finite (if 0 < q then v else - v))"

text \<open>
  The float operations. A sum that is exactly zero is \<open>-0.0\<close> only when both operands
  are; a product or quotient that is zero, and an infinite one, has the sign that the
  signs of the operands give.
\<close>

definition is_negative :: "f64 \<Rightarrow> bool" where
  "is_negative x =
     (case x of Finite q \<Rightarrow> q < 0 | NegZero \<Rightarrow> True | NegInf \<Rightarrow> True | _ \<Rightarrow> False)"

definition signed_zero :: "bool \<Rightarrow> f64" where
  "signed_zero neg = (if neg then NegZero else Finite 0)"

definition signed_inf :: "bool \<Rightarrow> f64" where
  "signed_inf neg = (if neg then NegInf else PosInf)"

definition finite_value :: "f64 \<Rightarrow> rat option" where
  "finite_value x = (case x of Finite q \<Rightarrow> Some q | NegZero \<Rightarrow> Some 0 | _ \<Rightarrow> None)"

definition fneg :: "f64 \<Rightarrow> f64" where
  "fneg x =
     (case x of
        Finite q \<Rightarrow> if q = 0 then NegZero else Finite (- q)
      | NegZero \<Rightarrow> Finite 0
      | PosInf \<Rightarrow> NegInf
      | NegInf \<Rightarrow> PosInf
      | NaN \<Rightarrow> NaN)"

definition fadd :: "f64 \<Rightarrow> f64 \<Rightarrow> f64" where
  "fadd x y =
     (if x = NaN \<or> y = NaN then NaN
      else
        case (finite_value x, finite_value y) of
          (Some a, Some b) \<Rightarrow>
            if a + b = 0 then signed_zero (is_negative x \<and> is_negative y \<and> a = 0)
            else f64_round (a + b)
        | (Some a, None) \<Rightarrow> y
        | (None, Some b) \<Rightarrow> x
        | (None, None) \<Rightarrow> if x = y then x else NaN)"

definition fsub :: "f64 \<Rightarrow> f64 \<Rightarrow> f64" where
  "fsub x y = fadd x (fneg y)"

definition fmul :: "f64 \<Rightarrow> f64 \<Rightarrow> f64" where
  "fmul x y =
     (if x = NaN \<or> y = NaN then NaN
      else
        let neg = (is_negative x \<noteq> is_negative y)
        in case (finite_value x, finite_value y) of
             (Some a, Some b) \<Rightarrow> if a * b = 0 then signed_zero neg else f64_round (a * b)
           | (Some a, None) \<Rightarrow> if a = 0 then NaN else signed_inf neg
           | (None, Some b) \<Rightarrow> if b = 0 then NaN else signed_inf neg
           | (None, None) \<Rightarrow> signed_inf neg)"

definition fdiv :: "f64 \<Rightarrow> f64 \<Rightarrow> f64" where
  "fdiv x y =
     (if x = NaN \<or> y = NaN then NaN
      else
        let neg = (is_negative x \<noteq> is_negative y)
        in case (finite_value x, finite_value y) of
             (Some a, Some b) \<Rightarrow>
               if b = 0 then (if a = 0 then NaN else signed_inf neg)
               else if a = 0 then signed_zero neg
               else f64_round (a / b)
           | (Some a, None) \<Rightarrow> signed_zero neg
           | (None, Some b) \<Rightarrow> signed_inf neg
           | (None, None) \<Rightarrow> NaN)"

text \<open>A float literal of the source text, such as \<^verbatim>\<open>0.92\<close>: the nearest float.\<close>

definition float_literal :: "rat \<Rightarrow> f64" where
  "float_literal q = f64_round q"

subsection \<open>Ints and floats\<close>

datatype number = PyInt int | PyFloat f64

text \<open>
  \<^verbatim>\<open>float(i)\<close>, the conversion that mixed arithmetic applies to an \<^verbatim>\<open>int\<close> operand: the
  nearest float, or \<open>OverflowError\<close> when that would be an infinity.
\<close>

definition float_of_int :: "int \<Rightarrow> error + f64" where
  "float_of_int i =
     (case f64_round (of_int i) of
        PosInf \<Rightarrow> Inl OverflowError
      | NegInf \<Rightarrow> Inl OverflowError
      | x \<Rightarrow> Inr x)"

definition to_float :: "number \<Rightarrow> error + f64" where
  "to_float n = (case n of PyInt i \<Rightarrow> float_of_int i | PyFloat x \<Rightarrow> Inr x)"

text \<open>
  \<^verbatim>\<open>+\<close>, \<^verbatim>\<open>-\<close>, \<^verbatim>\<open>*\<close> and \<^verbatim>\<open>/\<close>: exact on two ints (except \<^verbatim>\<open>/\<close>, which always gives a
  float); as soon as one operand is a float both are converted and the float operation
  is applied. Float addition, subtraction and multiplication never raise; division
  raises \<open>ZeroDivisionError\<close> on a zero divisor.
\<close>

definition float_op :: "(f64 \<Rightarrow> f64 \<Rightarrow> f64) \<Rightarrow> number \<Rightarrow> number \<Rightarrow> error + number" where
  "float_op f a b =
     (case to_float a of Inl e \<Rightarrow> Inl e | Inr x \<Rightarrow>
     (case to_float b of Inl e \<Rightarrow> Inl e | Inr y \<Rightarrow> Inr (PyFloat (f x y))))"


fun py_sub :: "number \<Rightarrow> number \<Rightarrow> error + number" where
  "py_sub (PyInt i) (PyInt j) = Inr (PyInt (i - j))"
| "py_sub a b = float_op fsub a b"

fun py_mul :: "number \<Rightarrow> number \<Rightarrow> error + number" where
  "py_mul (PyInt i) (PyInt j) = Inr (PyInt (i * j))"
| "py_mul a b = float_op fmul a b"

fun py_truediv :: "number \<Rightarrow> number \<Rightarrow> error + number" where
  "py_truediv (PyInt i) (PyInt j) =
     (if j = 0 then Inl ZeroDivisionError
      else if i = 0 then Inr (PyFloat (signed_zero (j < 0)))
      else
        case f64_round (of_int i / of_int j) of
          PosInf \<Rightarrow> Inl OverflowError
        | NegInf \<Rightarrow> Inl OverflowError
        | x \<Rightarrow> Inr (PyFloat x))"
| "py_truediv a b =
     (case to_float a of Inl e \<Rightarrow> Inl e | Inr x \<Rightarrow>
     (case to_float b of Inl e \<Rightarrow> Inl e | Inr y \<Rightarrow>
      if y = Finite 0 \<or> y = NegZero then Inl ZeroDivisionError
      else Inr (PyFloat (fdiv x y))))"


section \<open>currency.py\<close>

text \<open>A \<^verbatim>\<open>dict\<close> is an association list in insertion order.\<close>

definition SUPPORTED_CURRENCIES :: "(string \<times> f64) list" where
  "SUPPORTED_CURRENCIES =
     [(''USD'', float_literal 1), (''EUR'', float_literal (92 / 100)),
      (''GBP'', float_literal (81 / 100)), (''JPY'', float_literal 140),
      (''AUD'', float_literal (15 / 10))]"

definition BASE_CURRENCY :: string where
  "BASE_CURRENCY = ''USD''"

definition validate_currency :: "string \<Rightarrow> error + unit" where
  "validate_currency currency =
     (if currency \<notin> set (map fst SUPPORTED_CURRENCIES) then Inl CurrencyNotSupportedError
      else Inr ())"

text \<open>\<^verbatim>\<open>SUPPORTED_CURRENCIES[currency]\<close>: the rate, or \<open>KeyError\<close>.\<close>

definition rate_lookup :: "string \<Rightarrow> error + number" where
  "rate_lookup currency =
     (case map_of SUPPORTED_CURRENCIES currency of
        None \<Rightarrow> Inl (KeyError currency)
      | Some r \<Rightarrow> Inr (PyFloat r))"

definition convert :: "number \<Rightarrow> string \<Rightarrow> string \<Rightarrow> error + number" where
  "convert amount from_currency to_currency =
     (case validate_currency from_currency of Inl e \<Rightarrow> Inl e | Inr _ \<Rightarrow>
     (case validate_currency to_currency of Inl e \<Rightarrow> Inl e | Inr _ \<Rightarrow>
      if from_currency = to_currency then Inr amount
      else
       (case rate_lookup from_currency of Inl e \<Rightarrow> Inl e | Inr from_rate \<Rightarrow>
       (case py_truediv amount from_rate of Inl e \<Rightarrow> Inl e | Inr amount_in_base \<Rightarrow>
       (case rate_lookup to_currency of Inl e \<Rightarrow> Inl e | Inr to_rate \<Rightarrow>
        py_mul amount_in_base to_rate)))))"


text \<open>The currency codes of the table, and the rate of a code relative to the base.\<close>

definition supported :: "string \<Rightarrow> bool" where
  "supported c = (c \<in> {''USD'', ''EUR'', ''GBP'', ''JPY'', ''AUD''})"

definition rate :: "string \<Rightarrow> f64" where
  "rate c = the (map_of SUPPORTED_CURRENCIES c)"

section \<open>models.py\<close>

record Expense =
  description :: string
  amount :: number
  category :: string

record Wallet =
  name :: string
  currency :: string
  balance :: number
  expenses :: "Expense list"

text \<open>
  \<^verbatim>\<open>Wallet.add_expense\<close> mutates the wallet: the model returns the outcome and the wallet
  as the call leaves it. The record is appended before the subtraction is evaluated, so
  a subtraction that raises leaves the record appended and the balance as it was.
\<close>

definition Wallet_add_expense :: "Wallet \<Rightarrow> Expense \<Rightarrow> (error + unit) \<times> Wallet" where
  "Wallet_add_expense self expense =
     (let self1 = self\<lparr>expenses := expenses self @ [expense]\<rparr>
      in case py_sub (balance self1) (amount expense) of
           Inl e \<Rightarrow> (Inl e, self1)
         | Inr b \<Rightarrow> (Inr (), self1\<lparr>balance := b\<rparr>))"


section \<open>manager.py\<close>

subsection \<open>Strings and dictionaries\<close>

text \<open>
  \<^verbatim>\<open>str.lower\<close> on ASCII text: the letters \<open>A\<close> to \<open>Z\<close> (codes 65 to 90) move to \<open>a\<close> to
  \<open>z\<close>, every other character stays. Only the worked examples below depend on which
  characters \<open>lower\<close> changes; the general statements hold for any key function.
\<close>

definition char_lower :: "char \<Rightarrow> char" where
  "char_lower c =
     (let n = (of_char c :: nat) in if 65 \<le> n \<and> n \<le> 90 then char_of (n + 32) else c)"

definition lower :: "string \<Rightarrow> string" where
  "lower s = map char_lower s"

text \<open>
  \<^verbatim>\<open>d[k] = v\<close> on a \<^verbatim>\<open>dict\<close>: an existing key keeps its place and gets the new value, a new
  key goes to the end.
\<close>

fun dict_set :: "'k \<Rightarrow> 'v \<Rightarrow> ('k \<times> 'v) list \<Rightarrow> ('k \<times> 'v) list" where
  "dict_set k v [] = [(k, v)]"
| "dict_set k v ((k', v') # d) = (if k' = k then (k, v) # d else (k', v') # dict_set k v d)"

subsection \<open>The snapshot: nested dictionaries\<close>

text \<open>
  The dictionaries that \<^verbatim>\<open>__init__\<close> reads and \<^verbatim>\<open>to_dict\<close> writes. A key may be absent
  from a dictionary, so every field is optional.
\<close>

record expense_dict =
  ed_description :: "string option"
  ed_amount :: "number option"
  ed_category :: "string option"

record wallet_dict =
  wd_name :: "string option"
  wd_currency :: "string option"
  wd_balance :: "number option"
  wd_expenses :: "expense_dict list option"

record data_dict =
  dd_wallets :: "wallet_dict list option"

subsection \<open>The manager\<close>

record ExpenseManager =
  wallets :: "(string \<times> Wallet) list"

definition Expense_of_dict :: "expense_dict \<Rightarrow> error + Expense" where
  "Expense_of_dict expense =
     (case ed_description expense of None \<Rightarrow> Inl (KeyError ''description'') | Some d \<Rightarrow>
     (case ed_amount expense of None \<Rightarrow> Inl (KeyError ''amount'') | Some a \<Rightarrow>
      Inr \<lparr>description = d, amount = a,
           category = (case ed_category expense of None \<Rightarrow> ''uncategorized'' | Some c \<Rightarrow> c)\<rparr>))"

fun Expenses_of_dicts :: "expense_dict list \<Rightarrow> error + Expense list" where
  "Expenses_of_dicts [] = Inr []"
| "Expenses_of_dicts (expense # rest) =
     (case Expense_of_dict expense of Inl e \<Rightarrow> Inl e | Inr x \<Rightarrow>
     (case Expenses_of_dicts rest of Inl e \<Rightarrow> Inl e | Inr xs \<Rightarrow> Inr (x # xs)))"

definition Wallet_of_dict :: "wallet_dict \<Rightarrow> error + Wallet" where
  "Wallet_of_dict wallet_data =
     (case wd_name wallet_data of None \<Rightarrow> Inl (KeyError ''name'') | Some n \<Rightarrow>
     (case wd_currency wallet_data of None \<Rightarrow> Inl (KeyError ''currency'') | Some c \<Rightarrow>
     (case Expenses_of_dicts (case wd_expenses wallet_data of None \<Rightarrow> [] | Some es \<Rightarrow> es) of
        Inl e \<Rightarrow> Inl e
      | Inr es \<Rightarrow>
          Inr \<lparr>name = n, currency = c,
               balance = (case wd_balance wallet_data of None \<Rightarrow> PyFloat (Finite 0) | Some b \<Rightarrow> b),
               expenses = es\<rparr>)))"

text \<open>The loop of \<^verbatim>\<open>__init__\<close> over the wallets of the payload.\<close>

fun init_loop :: "(string \<times> Wallet) list \<Rightarrow> wallet_dict list \<Rightarrow> error + (string \<times> Wallet) list" where
  "init_loop ws [] = Inr ws"
| "init_loop ws (wallet_data # rest) =
     (case Wallet_of_dict wallet_data of Inl e \<Rightarrow> Inl e | Inr wallet \<Rightarrow>
      init_loop (dict_set (lower (name wallet)) wallet ws) rest)"

text \<open>
  \<^verbatim>\<open>ExpenseManager.__init__\<close>. \<^verbatim>\<open>data or {"wallets": []}\<close> replaces \<^verbatim>\<open>None\<close> (and the empty
  dictionary, which has no \<^verbatim>\<open>"wallets"\<close> either) by the empty payload;
  \<^verbatim>\<open>payload.get("wallets", [])\<close> reads an absent key as the empty list.
\<close>

definition ExpenseManager_init :: "data_dict option \<Rightarrow> error + ExpenseManager" where
  "ExpenseManager_init data =
     (let payload = (case data of None \<Rightarrow> \<lparr>dd_wallets = Some []\<rparr> | Some d \<Rightarrow> d)
      in case init_loop [] (case dd_wallets payload of None \<Rightarrow> [] | Some ws \<Rightarrow> ws) of
           Inl e \<Rightarrow> Inl e
         | Inr ws \<Rightarrow> Inr \<lparr>wallets = ws\<rparr>)"

text \<open>
  The operations that can mutate the manager return the outcome (the exception raised
  or the value returned) together with the manager as the call leaves it.
\<close>

definition create_wallet ::
  "ExpenseManager \<Rightarrow> string \<Rightarrow> string \<Rightarrow> number \<Rightarrow> (error + Wallet) \<times> ExpenseManager" where
  "create_wallet self name' currency' balance' =
     (let key = lower name' in
      if key \<in> set (map fst (wallets self)) then (Inl WalletExistsError, self)
      else
        case validate_currency currency' of Inl e \<Rightarrow> (Inl e, self) | Inr _ \<Rightarrow>
        let wallet = \<lparr>name = name', currency = currency', balance = balance', expenses = []\<rparr>
        in (Inr wallet, self\<lparr>wallets := dict_set key wallet (wallets self)\<rparr>))"

definition get_wallet :: "ExpenseManager \<Rightarrow> string \<Rightarrow> error + Wallet" where
  "get_wallet self name' =
     (let key = lower name' in
      case map_of (wallets self) key of
        None \<Rightarrow> Inl WalletNotFoundError
      | Some wallet \<Rightarrow> Inr wallet)"

definition list_wallets :: "ExpenseManager \<Rightarrow> Wallet list" where
  "list_wallets self = map snd (wallets self)"

text \<open>
  \<^verbatim>\<open>add_expense\<close> mutates the wallet object that the registry holds under the looked-up
  key: in the model the entry of that key is replaced by the wallet as
  \<^verbatim>\<open>Wallet.add_expense\<close> leaves it, also when that call raises.
\<close>

definition add_expense ::
  "ExpenseManager \<Rightarrow> string \<Rightarrow> string \<Rightarrow> number \<Rightarrow> string \<Rightarrow> (error + Expense) \<times> ExpenseManager" where
  "add_expense self wallet_name description' amount' category' =
     (case get_wallet self wallet_name of
        Inl e \<Rightarrow> (Inl e, self)
      | Inr wallet \<Rightarrow>
          let expense = \<lparr>description = description', amount = amount', category = category'\<rparr>;
              (outcome, wallet1) = Wallet_add_expense wallet expense;
              self1 = self\<lparr>wallets := dict_set (lower wallet_name) wallet1 (wallets self)\<rparr>
          in (case outcome of
                Inl e \<Rightarrow> (Inl e, self1)
              | Inr _ \<Rightarrow> (Inr expense, self1)))"

definition asdict :: "Expense \<Rightarrow> expense_dict" where
  "asdict expense =
     \<lparr>ed_description = Some (description expense), ed_amount = Some (amount expense),
      ed_category = Some (category expense)\<rparr>"

definition to_dict :: "ExpenseManager \<Rightarrow> data_dict" where
  "to_dict self =
     \<lparr>dd_wallets = Some (map (\<lambda>wallet.
        \<lparr>wd_name = Some (name wallet), wd_currency = Some (currency wallet),
         wd_balance = Some (balance wallet),
         wd_expenses = Some (map asdict (expenses wallet))\<rparr>) (list_wallets self))\<rparr>"

subsection \<open>Reports\<close>





record expense_line =
  el_description :: string
  el_amount :: number
  el_category :: string
  el_amount_in_target :: number

record report =
  wr_wallet :: string
  wr_wallet_currency :: string
  wr_balance :: number
  wr_balance_in_target :: number
  wr_expenses :: "expense_line list"
  wr_target_currency :: string

text \<open>The list comprehension of \<^verbatim>\<open>wallet_report\<close> over the wallet's expenses.\<close>

fun expense_lines :: "string \<Rightarrow> string \<Rightarrow> Expense list \<Rightarrow> error + expense_line list" where
  "expense_lines wallet_currency target [] = Inr []"
| "expense_lines wallet_currency target (expense # rest) =
     (case convert (amount expense) wallet_currency target of Inl e \<Rightarrow> Inl e | Inr a \<Rightarrow>
     (case expense_lines wallet_currency target rest of Inl e \<Rightarrow> Inl e | Inr ls \<Rightarrow>
      Inr (\<lparr>el_description = description expense, el_amount = amount expense,
            el_category = category expense, el_amount_in_target = a\<rparr> # ls)))"

text \<open>
  \<^verbatim>\<open>target_currency or wallet.currency\<close>: \<^verbatim>\<open>None\<close> and the empty string both give the
  wallet's currency.
\<close>

definition wallet_report :: "ExpenseManager \<Rightarrow> string \<Rightarrow> string option \<Rightarrow> error + report" where
  "wallet_report self wallet_name target_currency =
     (case get_wallet self wallet_name of Inl e \<Rightarrow> Inl e | Inr wallet \<Rightarrow>
      let target = (case target_currency of
                      None \<Rightarrow> currency wallet
                    | Some t \<Rightarrow> if t = [] then currency wallet else t)
      in
     (case validate_currency target of Inl e \<Rightarrow> Inl e | Inr _ \<Rightarrow>
     (case convert (balance wallet) (currency wallet) target of Inl e \<Rightarrow> Inl e | Inr b \<Rightarrow>
     (case expense_lines (currency wallet) target (expenses wallet) of
        Inl e \<Rightarrow> Inl e
      | Inr ls \<Rightarrow>
          Inr \<lparr>wr_wallet = name wallet, wr_wallet_currency = currency wallet,
               wr_balance = balance wallet, wr_balance_in_target = b,
               wr_expenses = ls, wr_target_currency = target\<rparr>))))"

section \<open>Specification vocabulary\<close>

text \<open>
  The registry invariant: the keys are distinct, as in every \<^verbatim>\<open>dict\<close>, and every wallet
  is stored under its lower-cased name. The constructor establishes it and
  \<open>create_wallet\<close> and \<open>add_expense\<close> keep it (lemmas \<open>keyed_init\<close>,
  \<open>keyed_create_wallet\<close>, \<open>keyed_add_expense\<close>).
\<close>

definition keyed :: "ExpenseManager \<Rightarrow> bool" where
  "keyed m = (distinct (map fst (wallets m))
     \<and> list_all (\<lambda>(k, w). k = lower (name w)) (wallets m))"




text \<open>The dictionary \<open>to_dict\<close> writes for a wallet.\<close>

definition wallet_entry :: "Wallet \<Rightarrow> wallet_dict" where
  "wallet_entry w =
     \<lparr>wd_name = Some (name w), wd_currency = Some (currency w), wd_balance = Some (balance w),
      wd_expenses = Some (map asdict (expenses w))\<rparr>"

text \<open>The manager of \<^verbatim>\<open>tests/test_manager.py\<close> (\<^verbatim>\<open>create_sample_manager\<close>), step by step.\<close>

definition empty_manager :: ExpenseManager where
  "empty_manager = \<lparr>wallets = []\<rparr>"

definition sample_step1 :: ExpenseManager where
  "sample_step1 = snd (create_wallet empty_manager ''Personal'' ''USD'' (PyInt 1000))"

definition sample_step2 :: ExpenseManager where
  "sample_step2 = snd (create_wallet sample_step1 ''Travel'' ''EUR'' (PyInt 500))"

definition sample_step3 :: ExpenseManager where
  "sample_step3 =
     snd (add_expense sample_step2 ''Personal'' ''Groceries'' (PyInt 120) ''food'')"

definition create_sample_manager :: ExpenseManager where
  "create_sample_manager =
     snd (add_expense sample_step3 ''Travel'' ''Hotel'' (PyInt 200) ''lodging'')"


text \<open>A snapshot whose only wallet is denominated in a code that is not in the table.\<close>

definition foreign_snapshot :: data_dict where
  "foreign_snapshot =
     \<lparr>dd_wallets = Some [\<lparr>wd_name = Some ''Cash'', wd_currency = Some ''CHF'',
                          wd_balance = Some (PyInt 50), wd_expenses = Some []\<rparr>]\<rparr>"

definition foreign_manager :: ExpenseManager where
  "foreign_manager =
     \<lparr>wallets = [(''cash'',
        \<lparr>name = ''Cash'', currency = ''CHF'', balance = PyInt 50, expenses = []\<rparr>)]\<rparr>"




text \<open>
  Snapshot entries: two whose names differ only in case, and one without the
  \<^verbatim>\<open>"currency"\<close> key.
\<close>

definition clash_first :: wallet_dict where
  "clash_first =
     \<lparr>wd_name = Some ''Travel'', wd_currency = Some ''EUR'', wd_balance = Some (PyInt 500),
      wd_expenses = None\<rparr>"

definition clash_second :: wallet_dict where
  "clash_second =
     \<lparr>wd_name = Some ''TRAVEL'', wd_currency = Some ''USD'', wd_balance = None,
      wd_expenses = Some [\<lparr>ed_description = Some ''Taxi'', ed_amount = Some (PyInt 30),
                           ed_category = None\<rparr>]\<rparr>"

definition no_currency :: wallet_dict where
  "no_currency =
     \<lparr>wd_name = Some ''Savings'', wd_currency = None, wd_balance = Some (PyInt 10),
      wd_expenses = None\<rparr>"

section \<open>Evaluating float arithmetic\<close>

declare bit_length.simps [simp del]

lemma floor_rat_numeral_div: "\<lfloor>numeral a / numeral b :: rat\<rfloor> = numeral a div numeral b"
  by (metis floor_divide_of_int_eq of_int_numeral)

lemma ceiling_rat_numeral_div:
  "\<lceil>numeral a / numeral b :: rat\<rceil> = - (- numeral a div numeral b)"
  by (metis ceiling_def floor_divide_of_int_eq of_int_numeral of_int_minus minus_divide_left)

lemmas f64_eval =
  f64_round_def floor_log2_def pow2_def round_half_even_def Let_def bit_length.simps
  fadd_def fsub_def fneg_def fmul_def fdiv_def finite_value_def is_negative_def
  signed_zero_def signed_inf_def float_of_int_def to_float_def float_op_def float_literal_def
  floor_rat_numeral_div ceiling_rat_numeral_div

lemma float_of_int_errors: "float_of_int i = Inl e \<Longrightarrow> e = OverflowError"
  by (auto simp: float_of_int_def split: f64.splits)

lemma to_float_errors: "to_float n = Inl e \<Longrightarrow> e = OverflowError"
  by (cases n) (auto simp: to_float_def dest: float_of_int_errors)

lemma float_op_errors: "float_op f a b = Inl e \<Longrightarrow> e = OverflowError"
  by (auto simp: float_op_def split: sum.splits dest: to_float_errors)


lemma py_sub_errors: "py_sub a b = Inl e \<Longrightarrow> e = OverflowError"
  by (cases "(a, b)" rule: py_sub.cases) (auto dest: float_op_errors)

lemma py_mul_errors: "py_mul a b = Inl e \<Longrightarrow> e = OverflowError"
  by (cases "(a, b)" rule: py_mul.cases) (auto dest: float_op_errors)



lemma float_of_int_huge: "float_of_int (10 ^ 400) = Inl OverflowError"
  by (simp add: f64_eval)

section \<open>Properties of the currency table\<close>

lemma table_values:
  "SUPPORTED_CURRENCIES =
     [(''USD'', Finite 1), (''EUR'', Finite (8286623314361713 / 9007199254740992)),
      (''GBP'', Finite (1823957849085051 / 2251799813685248)), (''JPY'', Finite 140),
      (''AUD'', Finite (3 / 2))]"
  by (simp add: SUPPORTED_CURRENCIES_def f64_eval)

lemma supported_iff_in_table: "supported c \<longleftrightarrow> c \<in> set (map fst SUPPORTED_CURRENCIES)"
  by (auto simp: supported_def SUPPORTED_CURRENCIES_def)

lemma validate_currency_eq:
  "validate_currency c = (if supported c then Inr () else Inl CurrencyNotSupportedError)"
  by (simp add: validate_currency_def supported_iff_in_table)

lemma rate_in_table: "supported c \<Longrightarrow> map_of SUPPORTED_CURRENCIES c = Some (rate c)"
  by (auto simp: supported_def rate_def SUPPORTED_CURRENCIES_def)

lemma rate_lookup_supported: "supported c \<Longrightarrow> rate_lookup c = Inr (PyFloat (rate c))"
  by (simp add: rate_lookup_def rate_in_table)

lemma rate_nonzero: "supported c \<Longrightarrow> rate c \<noteq> Finite 0 \<and> rate c \<noteq> NegZero"
  by (auto simp: supported_def rate_def table_values)

lemma py_truediv_rate:
  "supported c \<Longrightarrow>
     py_truediv x (PyFloat (rate c)) =
       (case to_float x of Inl e \<Rightarrow> Inl e | Inr f \<Rightarrow> Inr (PyFloat (fdiv f (rate c))))"
  using rate_nonzero [of c]
  by (cases x) (auto simp: to_float_def split: sum.splits)

declare py_truediv.simps [simp del]

lemma convert_eq:
  "convert x a b =
     (if \<not> supported a \<or> \<not> supported b then Inl CurrencyNotSupportedError
      else if a = b then Inr x
      else case py_truediv x (PyFloat (rate a)) of
             Inl e \<Rightarrow> Inl e
           | Inr y \<Rightarrow> py_mul y (PyFloat (rate b)))"
  by (auto simp: convert_def validate_currency_eq rate_lookup_supported split: sum.splits)

lemma convert_float:
  "supported a \<Longrightarrow> supported b \<Longrightarrow> a \<noteq> b \<Longrightarrow>
     convert (PyFloat f) a b = Inr (PyFloat (fmul (fdiv f (rate a)) (rate b)))"
  by (simp add: convert_eq py_truediv_rate to_float_def float_op_def rate_nonzero)

lemma convert_int:
  "supported a \<Longrightarrow> supported b \<Longrightarrow> a \<noteq> b \<Longrightarrow>
     convert (PyInt i) a b =
       (case float_of_int i of
          Inl e \<Rightarrow> Inl OverflowError
        | Inr f \<Rightarrow> Inr (PyFloat (fmul (fdiv f (rate a)) (rate b))))"
  by (auto simp: convert_eq py_truediv_rate to_float_def float_op_def rate_nonzero
      split: sum.splits dest: float_of_int_errors)

lemma convert_errors:
  "supported a \<Longrightarrow> supported b \<Longrightarrow> convert x a b = Inl e \<Longrightarrow> e = OverflowError"
proof -
  assume s: "supported a" "supported b" and c: "convert x a b = Inl e"
  show ?thesis
  proof (cases "to_float x")
    case (Inl e')
    with s c show ?thesis
      by (auto simp: convert_eq py_truediv_rate split: if_splits dest: to_float_errors)
  next
    case (Inr f)
    with s c have "py_mul (PyFloat (fdiv f (rate a))) (PyFloat (rate b)) = Inl e"
      by (auto simp: convert_eq py_truediv_rate split: if_splits)
    then show ?thesis
      by (rule py_mul_errors)
  qed
qed

text \<open>
  Claim C1, as stated, fails: an amount can be an int, and for an int too large for a
  float the division of the first hop raises \<open>OverflowError\<close>, so nothing is returned
  although both codes are supported.
\<close>

theorem convert_overflow_counterexample:
  "supported ''EUR'' \<and> supported ''USD''
   \<and> convert (PyInt (10 ^ 400)) ''EUR'' ''USD'' = Inl OverflowError"
proof -
  have codes: "supported ''EUR''" "supported ''USD''"
    by (simp_all add: supported_def)
  have "''EUR'' \<noteq> ''USD''"
    by simp
  with codes have "convert (PyInt (10 ^ 400)) ''EUR'' ''USD'' =
      (case float_of_int (10 ^ 400) of
          Inl e \<Rightarrow> Inl OverflowError
        | Inr f \<Rightarrow> Inr (PyFloat (fmul (fdiv f (rate ''EUR'')) (rate ''USD''))))"
    by (rule convert_int)
  then have "convert (PyInt (10 ^ 400)) ''EUR'' ''USD'' = Inl OverflowError"
    by (simp only: float_of_int_huge sum.case)
  with codes show ?thesis by simp
qed

text \<open>
  Claim C1, amended. For every amount \<open>x\<close> and supported codes \<open>a\<close>, \<open>b\<close>: when \<open>a = b\<close>,
  \<open>convert\<close> returns \<open>x\<close> itself; otherwise it divides \<open>x\<close> by the rate of \<open>a\<close> and then
  multiplies the quotient by the rate of \<open>b\<close>, in this order, with Python's \<^verbatim>\<open>/\<close> and
  \<^verbatim>\<open>*\<close>. On a float this always returns, the product of the rounded quotient; on an
  int it does the same with the int converted to a float, and raises \<open>OverflowError\<close>
  exactly when that conversion does. The rates are those of the table, the base
  currency having rate 1.
\<close>

theorem convert_identity_or_two_hop:
  "supported a \<Longrightarrow> supported b \<Longrightarrow>
     convert x a b =
       (if a = b then Inr x
        else case py_truediv x (PyFloat (rate a)) of
               Inl e \<Rightarrow> Inl e
             | Inr y \<Rightarrow> py_mul y (PyFloat (rate b)))
     \<and> (a \<noteq> b \<longrightarrow> (\<forall>f. x = PyFloat f \<longrightarrow>
           convert x a b = Inr (PyFloat (fmul (fdiv f (rate a)) (rate b)))))
     \<and> (a \<noteq> b \<longrightarrow> (\<forall>i. x = PyInt i \<longrightarrow>
           convert x a b =
             (case float_of_int i of
                Inl e \<Rightarrow> Inl OverflowError
              | Inr f \<Rightarrow> Inr (PyFloat (fmul (fdiv f (rate a)) (rate b))))))
     \<and> rate BASE_CURRENCY = Finite 1
     \<and> map_of SUPPORTED_CURRENCIES a = Some (rate a)
     \<and> map_of SUPPORTED_CURRENCIES b = Some (rate b)"
proof (intro conjI impI allI)
  assume ab: "supported a" "supported b"
  then show "convert x a b =
       (if a = b then Inr x
        else case py_truediv x (PyFloat (rate a)) of
               Inl e \<Rightarrow> Inl e
             | Inr y \<Rightarrow> py_mul y (PyFloat (rate b)))"
    by (simp add: convert_eq)
  show "rate BASE_CURRENCY = Finite 1"
    by (simp add: BASE_CURRENCY_def rate_def table_values)
  from ab show "map_of SUPPORTED_CURRENCIES a = Some (rate a)"
    and "map_of SUPPORTED_CURRENCIES b = Some (rate b)"
    by (simp_all add: rate_in_table)
  fix f
  assume "a \<noteq> b" "x = PyFloat f"
  with ab show "convert x a b = Inr (PyFloat (fmul (fdiv f (rate a)) (rate b)))"
    by (simp add: convert_float)
next
  fix i
  assume "supported a" "supported b" "a \<noteq> b" "x = PyInt i"
  then show "convert x a b =
             (case float_of_int i of
                Inl e \<Rightarrow> Inl OverflowError
              | Inr f \<Rightarrow> Inr (PyFloat (fmul (fdiv f (rate a)) (rate b))))"
    by (simp add: convert_int)
qed

lemma rate_EUR: "rate ''EUR'' = Finite (8286623314361713 / 9007199254740992)"
  by (simp add: rate_def table_values)

lemma rate_USD: "rate ''USD'' = Finite 1"
  by (simp add: rate_def table_values)

lemma float_of_int_100: "float_of_int 100 = Inr (Finite 100)"
  by (simp add: f64_eval)

lemma hundred_to_EUR:
  "fmul (fdiv (Finite 100) (Finite 1)) (Finite (8286623314361713 / 9007199254740992)) = Finite 92"
  by (simp add: f64_eval)

lemma hundred_to_USD:
  "fmul (fdiv (Finite 100) (Finite (8286623314361713 / 9007199254740992))) (Finite 1)
     = Finite (3824388270525217 / 35184372088832)"
  by (simp add: f64_eval)

text \<open>
  The identity on equal codes is not what the two hops would give, and the two hops are
  not what multiplying first would give.
\<close>

lemma there_and_back_is_not_identity:
  "fmul (fdiv (Finite 15) (rate ''EUR'')) (rate ''EUR'') = Finite (8444249301319681 / 562949953421312)"
  by (simp add: rate_EUR) (simp add: f64_eval)

lemma hop_order_matters:
  "fmul (fdiv (Finite 7) (rate ''EUR'')) (rate ''GBP'') = Finite (6938970078040955 / 1125899906842624)
   \<and> fdiv (fmul (Finite 7) (rate ''GBP'')) (rate ''EUR'') = Finite (3469485039020477 / 562949953421312)"
  by (simp add: rate_def table_values) (simp add: f64_eval)

theorem convert_identity_or_two_hop_witness:
  "convert (PyInt 100) ''USD'' ''EUR'' = Inr (PyFloat (Finite 92))
   \<and> convert (PyFloat (Finite 100)) ''EUR'' ''USD''
       = Inr (PyFloat (Finite (3824388270525217 / 35184372088832)))
   \<and> convert (PyFloat (Finite 15)) ''EUR'' ''EUR'' = Inr (PyFloat (Finite 15))"
proof -
  have u: "supported ''USD''" and e: "supported ''EUR''"
    by (simp_all add: supported_def)
  have a: "convert (PyInt 100) ''USD'' ''EUR'' = Inr (PyFloat (Finite 92))"
    using convert_identity_or_two_hop [OF u e, of "PyInt 100", THEN conjunct2]
    by (simp add: float_of_int_100 rate_EUR rate_USD hundred_to_EUR)
  have b: "convert (PyFloat (Finite 100)) ''EUR'' ''USD''
       = Inr (PyFloat (Finite (3824388270525217 / 35184372088832)))"
    using convert_identity_or_two_hop [OF e u, of "PyFloat (Finite 100)", THEN conjunct2]
    by (simp add: rate_EUR rate_USD hundred_to_USD)
  have c: "convert (PyFloat (Finite 15)) ''EUR'' ''EUR'' = Inr (PyFloat (Finite 15))"
    using convert_identity_or_two_hop [OF e e, of "PyFloat (Finite 15)"]
    by simp
  from a b c show ?thesis by simp
qed

text \<open>
  Claim C4. \<open>validate_currency c\<close> raises \<open>CurrencyNotSupportedError\<close> exactly when \<open>c\<close> is
  outside \<open>{USD, EUR, GBP, JPY, AUD}\<close>, and \<open>convert\<close> raises it exactly when one of its two
  codes is outside the set; on codes of the set \<open>validate_currency\<close> succeeds, and
  \<open>convert\<close> returns unless its arithmetic raises \<open>OverflowError\<close>, which it does not on a
  float.
\<close>

theorem currency_not_supported_iff:
  "(validate_currency c = Inl CurrencyNotSupportedError
      \<longleftrightarrow> c \<notin> {''USD'', ''EUR'', ''GBP'', ''JPY'', ''AUD''})
   \<and> (c \<in> {''USD'', ''EUR'', ''GBP'', ''JPY'', ''AUD''} \<longleftrightarrow> validate_currency c = Inr ())
   \<and> (convert x a b = Inl CurrencyNotSupportedError
      \<longleftrightarrow> a \<notin> {''USD'', ''EUR'', ''GBP'', ''JPY'', ''AUD''}
          \<or> b \<notin> {''USD'', ''EUR'', ''GBP'', ''JPY'', ''AUD''})
   \<and> ((\<exists>y. convert x a b = Inr y) \<longrightarrow>
        a \<in> {''USD'', ''EUR'', ''GBP'', ''JPY'', ''AUD''}
        \<and> b \<in> {''USD'', ''EUR'', ''GBP'', ''JPY'', ''AUD''})
   \<and> (a \<in> {''USD'', ''EUR'', ''GBP'', ''JPY'', ''AUD''}
        \<and> b \<in> {''USD'', ''EUR'', ''GBP'', ''JPY'', ''AUD''}
      \<longrightarrow> (\<exists>y. convert x a b = Inr y) \<or> convert x a b = Inl OverflowError)
   \<and> (a \<in> {''USD'', ''EUR'', ''GBP'', ''JPY'', ''AUD''}
        \<and> b \<in> {''USD'', ''EUR'', ''GBP'', ''JPY'', ''AUD''}
      \<longrightarrow> (\<exists>y. convert (PyFloat f) a b = Inr y))"
proof -
  have v: "(validate_currency c = Inl CurrencyNotSupportedError) = (\<not> supported c)"
    "supported c = (validate_currency c = Inr ())"
    by (simp_all add: validate_currency_eq)
  have unsupported: "(convert x a b = Inl CurrencyNotSupportedError)
      = (\<not> supported a \<or> \<not> supported b)"
  proof (cases "supported a \<and> supported b")
    case True
    then have "convert x a b \<noteq> Inl CurrencyNotSupportedError"
      using convert_errors [of a b x CurrencyNotSupportedError] by auto
    with True show ?thesis by simp
  next
    case False
    then show ?thesis by (auto simp: convert_eq)
  qed
  have returns: "(\<exists>y. convert x a b = Inr y) \<longrightarrow> supported a \<and> supported b"
    by (auto simp: convert_eq split: if_splits)
  have outcome: "supported a \<and> supported b
      \<longrightarrow> (\<exists>y. convert x a b = Inr y) \<or> convert x a b = Inl OverflowError"
  proof
    assume s: "supported a \<and> supported b"
    show "(\<exists>y. convert x a b = Inr y) \<or> convert x a b = Inl OverflowError"
    proof (cases "convert x a b")
      case (Inl e)
      with s show ?thesis
        using convert_errors [of a b x e] by simp
    next
      case (Inr y)
      then show ?thesis by simp
    qed
  qed
  have float: "supported a \<and> supported b \<longrightarrow> (\<exists>y. convert (PyFloat f) a b = Inr y)"
    by (cases "a = b") (simp_all add: convert_float, simp add: convert_eq)
  from v unsupported returns outcome float show ?thesis
    unfolding supported_def by blast
qed

theorem currency_not_supported_iff_witness:
  "validate_currency ''CHF'' = Inl CurrencyNotSupportedError
   \<and> validate_currency ''JPY'' = Inr ()
   \<and> convert (PyInt 5) ''USD'' ''usd'' = Inl CurrencyNotSupportedError
   \<and> (\<exists>y. convert (PyFloat (Finite 5)) ''GBP'' ''AUD'' = Inr y)"
  using currency_not_supported_iff [of "''CHF''" "PyInt 5" "''USD''" "''usd''"]
    currency_not_supported_iff [of "''JPY''" _ "''GBP''" "''AUD''" "Finite 5"]
  by simp

section \<open>Dictionaries and the registry invariant\<close>

lemma map_of_dict_set: "map_of (dict_set k v d) = (map_of d)(k \<mapsto> v)"
  by (induction d) (auto simp: fun_eq_iff)

lemma keys_dict_set:
  "map fst (dict_set k v d) = (if k \<in> set (map fst d) then map fst d else map fst d @ [k])"
  by (induction d) force+

lemma dict_set_new: "k \<notin> set (map fst d) \<Longrightarrow> dict_set k v d = d @ [(k, v)]"
  by (induction d) auto

lemma length_dict_set:
  "length (dict_set k v d) = (if k \<in> set (map fst d) then length d else Suc (length d))"
  by (induction d) force+

lemma set_dict_set_subset: "set (dict_set k v d) \<subseteq> insert (k, v) (set d)"
  by (induction d) (auto split: if_splits)

lemma distinct_dict_set: "distinct (map fst d) \<Longrightarrow> distinct (map fst (dict_set k v d))"
  by (simp add: keys_dict_set)

lemma keyed_dict_set:
  assumes "keyed \<lparr>wallets = d\<rparr>" and "k = lower (name w)"
  shows "keyed \<lparr>wallets = dict_set k w d\<rparr>"
proof -
  have "\<forall>p \<in> insert (k, w) (set d). fst p = lower (name (snd p))"
    using assms by (auto simp: keyed_def list_all_iff)
  then have "\<forall>p \<in> set (dict_set k w d). fst p = lower (name (snd p))"
    using set_dict_set_subset [of k w d] by blast
  then show ?thesis
    using assms by (auto simp: keyed_def list_all_iff distinct_dict_set)
qed

lemma keyed_key_iff:
  assumes "keyed m"
  shows "k \<in> set (map fst (wallets m)) \<longleftrightarrow> (\<exists>w \<in> set (list_wallets m). lower (name w) = k)"
  using assms by (force simp: keyed_def list_all_iff list_wallets_def)

lemma keyed_lookup_name:
  assumes "keyed m" and "map_of (wallets m) k = Some w"
  shows "lower (name w) = k"
  using assms by (auto simp: keyed_def list_all_iff dest!: map_of_SomeD)

lemma get_wallet_eq:
  "get_wallet m n =
     (case map_of (wallets m) (lower n) of None \<Rightarrow> Inl WalletNotFoundError | Some w \<Rightarrow> Inr w)"
  by (simp add: get_wallet_def)

lemma get_wallet_missing_iff:
  "get_wallet m n = Inl WalletNotFoundError \<longleftrightarrow> lower n \<notin> set (map fst (wallets m))"
proof (cases "map_of (wallets m) (lower n)")
  case None
  then have "lower n \<notin> fst ` set (wallets m)"
    by (simp add: map_of_eq_None_iff)
  with None show ?thesis
    by (simp add: get_wallet_eq)
next
  case (Some w)
  then have "lower n \<in> fst ` set (wallets m)"
    by (metis map_of_eq_None_iff option.distinct(1))
  with Some show ?thesis
    by (simp add: get_wallet_eq)
qed

lemma get_wallet_errors: "get_wallet m n = Inl e \<Longrightarrow> e = WalletNotFoundError"
  by (auto simp: get_wallet_eq split: option.splits)

lemma keyed_empty: "keyed empty_manager"
  by (simp add: keyed_def empty_manager_def)

lemma keyed_create_wallet: "keyed m \<Longrightarrow> keyed (snd (create_wallet m n c b))"
proof -
  assume k: "keyed m"
  then have "keyed \<lparr>wallets = wallets m\<rparr>"
    by (simp add: keyed_def)
  then have "keyed \<lparr>wallets = dict_set (lower n) \<lparr>name = n, currency = c, balance = b, expenses = []\<rparr> (wallets m)\<rparr>"
    by (rule keyed_dict_set) simp
  then have "keyed (m\<lparr>wallets := dict_set (lower n) \<lparr>name = n, currency = c, balance = b, expenses = []\<rparr> (wallets m)\<rparr>)"
    by (simp add: keyed_def)
  with k show ?thesis
    by (auto simp: create_wallet_def Let_def split: sum.splits)
qed

lemma Wallet_add_expense_eq:
  "Wallet_add_expense w e =
     (case py_sub (balance w) (amount e) of
        Inl err \<Rightarrow> (Inl err, w\<lparr>expenses := expenses w @ [e]\<rparr>)
      | Inr b \<Rightarrow> (Inr (), w\<lparr>expenses := expenses w @ [e], balance := b\<rparr>))"
  by (simp add: Wallet_add_expense_def Let_def split: sum.splits)

lemma name_Wallet_add_expense: "name (snd (Wallet_add_expense w e)) = name w"
  by (simp add: Wallet_add_expense_eq split: sum.splits)

lemma add_expense_eq:
  "add_expense m n d a c =
     (case get_wallet m n of
        Inl e \<Rightarrow> (Inl e, m)
      | Inr w \<Rightarrow>
         (case py_sub (balance w) a of
            Inl e \<Rightarrow>
              (Inl e,
               m\<lparr>wallets := dict_set (lower n)
                    (w\<lparr>expenses := expenses w @ [\<lparr>description = d, amount = a, category = c\<rparr>]\<rparr>)
                    (wallets m)\<rparr>)
          | Inr b \<Rightarrow>
              (Inr \<lparr>description = d, amount = a, category = c\<rparr>,
               m\<lparr>wallets := dict_set (lower n)
                    (w\<lparr>expenses := expenses w @ [\<lparr>description = d, amount = a, category = c\<rparr>],
                       balance := b\<rparr>) (wallets m)\<rparr>)))"
  by (simp add: add_expense_def Let_def Wallet_add_expense_eq split: sum.splits)

lemma keyed_add_expense: "keyed m \<Longrightarrow> keyed (snd (add_expense m n d a c))"
proof (cases "get_wallet m n")
  case (Inl e)
  assume "keyed m"
  with Inl show ?thesis
    by (simp add: add_expense_eq)
next
  case (Inr w)
  assume k: "keyed m"
  from Inr have found: "map_of (wallets m) (lower n) = Some w"
    by (auto simp: get_wallet_eq split: option.splits)
  from k have base: "keyed \<lparr>wallets = wallets m\<rparr>"
    by (simp add: keyed_def)
  have step: "keyed \<lparr>wallets = dict_set (lower n) w' (wallets m)\<rparr>" if "name w' = name w" for w'
  proof -
    from k found that have "lower n = lower (name w')"
      by (simp add: keyed_lookup_name)
    with base show ?thesis
      by (rule keyed_dict_set)
  qed
  show ?thesis
    using Inr step by (auto simp: add_expense_eq keyed_def split: sum.splits)
qed

lemma keyed_init_loop:
  "init_loop acc wds = Inr r \<Longrightarrow> keyed \<lparr>wallets = acc\<rparr> \<Longrightarrow> keyed \<lparr>wallets = r\<rparr>"
proof (induction wds arbitrary: acc)
  case Nil
  then show ?case by simp
next
  case (Cons wd wds)
  then show ?case
    by (auto split: sum.splits intro: keyed_dict_set)
qed

lemma keyed_init: "ExpenseManager_init data = Inr m \<Longrightarrow> keyed m"
proof -
  assume "ExpenseManager_init data = Inr m"
  then obtain wds where "init_loop [] wds = Inr (wallets m)"
    by (auto simp: ExpenseManager_init_def Let_def split: sum.splits)
  moreover have "keyed \<lparr>wallets = []\<rparr>"
    by (simp add: keyed_def)
  ultimately have "keyed \<lparr>wallets = wallets m\<rparr>"
    by (rule keyed_init_loop)
  then show ?thesis
    by (simp add: keyed_def)
qed

section \<open>Wallet creation and expense insertion\<close>


lemma create_wallet_eq:
  "create_wallet m n c b =
     (if lower n \<in> set (map fst (wallets m)) then (Inl WalletExistsError, m)
      else if \<not> supported c then (Inl CurrencyNotSupportedError, m)
      else (Inr \<lparr>name = n, currency = c, balance = b, expenses = []\<rparr>,
            m\<lparr>wallets := wallets m @
                 [(lower n, \<lparr>name = n, currency = c, balance = b, expenses = []\<rparr>)]\<rparr>))"
  by (simp add: create_wallet_def Let_def validate_currency_eq dict_set_new)



lemma lower_Personal: "lower ''Personal'' = ''personal''"
  by code_simp

lemma lower_PERSONAL: "lower ''PERSONAL'' = ''personal''"
  by code_simp

lemma lower_Travel: "lower ''Travel'' = ''travel''"
  by code_simp

lemma sample_step1_eq:
  "sample_step1 =
     \<lparr>wallets = [(''personal'',
        \<lparr>name = ''Personal'', currency = ''USD'', balance = PyInt 1000, expenses = []\<rparr>)]\<rparr>"
  by (simp add: sample_step1_def create_wallet_eq empty_manager_def supported_def lower_Personal)

lemma keyed_sample_step1: "keyed sample_step1"
  unfolding sample_step1_def by (rule keyed_create_wallet [OF keyed_empty])

lemma list_wallets_sample_step1:
  "list_wallets sample_step1 =
     [\<lparr>name = ''Personal'', currency = ''USD'', balance = PyInt 1000, expenses = []\<rparr>]"
  by (simp add: sample_step1_eq list_wallets_def)





text \<open>
  Claim C5. On a manager whose registry is keyed by lower-cased names, \<open>create_wallet\<close>
  raises \<open>WalletExistsError\<close> when some registered wallet's name equals the new name
  after lower-casing both; otherwise it raises \<open>CurrencyNotSupportedError\<close> when the
  currency is not in the table; otherwise it returns the wallet with the given name (as
  written), currency and balance and no expenses, and registers it: the wallet is added
  at the end of \<open>list_wallets\<close> and \<open>get_wallet\<close> finds it under the name. A failing call
  leaves the manager as it was.
\<close>

theorem create_wallet_outcomes:
  assumes "keyed m"
  shows "create_wallet m n c b =
     (if \<exists>w \<in> set (list_wallets m). lower (name w) = lower n then (Inl WalletExistsError, m)
      else if \<not> supported c then (Inl CurrencyNotSupportedError, m)
      else (Inr \<lparr>name = n, currency = c, balance = b, expenses = []\<rparr>,
            m\<lparr>wallets := wallets m @
                 [(lower n, \<lparr>name = n, currency = c, balance = b, expenses = []\<rparr>)]\<rparr>))
   \<and> (\<forall>w m'. create_wallet m n c b = (Inr w, m') \<longrightarrow>
         w = \<lparr>name = n, currency = c, balance = b, expenses = []\<rparr>
         \<and> list_wallets m' = list_wallets m @ [w]
         \<and> get_wallet m' n = Inr w
         \<and> keyed m')"
proof -
  have taken: "(\<exists>w \<in> set (list_wallets m). lower (name w) = lower n)
      \<longleftrightarrow> lower n \<in> set (map fst (wallets m))"
    using keyed_key_iff [OF assms, of "lower n"] by simp
  have first: "create_wallet m n c b =
     (if \<exists>w \<in> set (list_wallets m). lower (name w) = lower n then (Inl WalletExistsError, m)
      else if \<not> supported c then (Inl CurrencyNotSupportedError, m)
      else (Inr \<lparr>name = n, currency = c, balance = b, expenses = []\<rparr>,
            m\<lparr>wallets := wallets m @
                 [(lower n, \<lparr>name = n, currency = c, balance = b, expenses = []\<rparr>)]\<rparr>))"
    unfolding taken by (rule create_wallet_eq)
  have second: "w = \<lparr>name = n, currency = c, balance = b, expenses = []\<rparr>
         \<and> list_wallets m' = list_wallets m @ [w]
         \<and> get_wallet m' n = Inr w
         \<and> keyed m'" if ok: "create_wallet m n c b = (Inr w, m')" for w m'
  proof -
    from ok have fresh: "lower n \<notin> set (map fst (wallets m))"
      by (auto simp: create_wallet_eq split: if_splits)
    from ok have w: "w = \<lparr>name = n, currency = c, balance = b, expenses = []\<rparr>"
      and m': "m' = m\<lparr>wallets := wallets m @ [(lower n, w)]\<rparr>"
      by (auto simp: create_wallet_eq split: if_splits)
    from fresh have none: "map_of (wallets m) (lower n) = None"
      by (simp add: map_of_eq_None_iff)
    have "keyed (snd (create_wallet m n c b))"
      using assms by (rule keyed_create_wallet)
    with ok have "keyed m'" by simp
    with w m' none show ?thesis
      by (simp add: list_wallets_def get_wallet_eq map_add_def)
  qed
  have post: "\<forall>w m'. create_wallet m n c b = (Inr w, m') \<longrightarrow>
         w = \<lparr>name = n, currency = c, balance = b, expenses = []\<rparr>
         \<and> list_wallets m' = list_wallets m @ [w]
         \<and> get_wallet m' n = Inr w
         \<and> keyed m'"
  proof (intro allI impI)
    fix w m'
    assume "create_wallet m n c b = (Inr w, m')"
    then show "w = \<lparr>name = n, currency = c, balance = b, expenses = []\<rparr>
         \<and> list_wallets m' = list_wallets m @ [w]
         \<and> get_wallet m' n = Inr w
         \<and> keyed m'"
      by (rule second)
  qed
  from first post show ?thesis by (rule conjI)
qed

theorem create_wallet_outcomes_witness:
  "create_wallet sample_step1 ''PERSONAL'' ''EUR'' (PyInt 5) = (Inl WalletExistsError, sample_step1)
   \<and> create_wallet sample_step1 ''Travel'' ''CHF'' (PyInt 0) = (Inl CurrencyNotSupportedError, sample_step1)
   \<and> fst (create_wallet sample_step1 ''Travel'' ''EUR'' (PyInt 500)) =
       Inr \<lparr>name = ''Travel'', currency = ''EUR'', balance = PyInt 500, expenses = []\<rparr>
   \<and> get_wallet (snd (create_wallet sample_step1 ''Travel'' ''EUR'' (PyInt 500))) ''Travel'' =
       Inr \<lparr>name = ''Travel'', currency = ''EUR'', balance = PyInt 500, expenses = []\<rparr>"
proof -
  have taken: "\<exists>w \<in> set (list_wallets sample_step1). lower (name w) = lower ''PERSONAL''"
    by (simp add: list_wallets_sample_step1 lower_Personal lower_PERSONAL)
  have free: "\<not> (\<exists>w \<in> set (list_wallets sample_step1). lower (name w) = lower ''Travel'')"
    by (simp add: list_wallets_sample_step1 lower_Personal lower_Travel)
  have codes: "\<not> supported ''CHF''" "supported ''EUR''"
    by (simp_all add: supported_def)
  note spec = create_wallet_outcomes [OF keyed_sample_step1]
  have a: "create_wallet sample_step1 ''PERSONAL'' ''EUR'' (PyInt 5) = (Inl WalletExistsError, sample_step1)"
    using taken by (simp only: spec [THEN conjunct1] if_True)
  have b: "create_wallet sample_step1 ''Travel'' ''CHF'' (PyInt 0) = (Inl CurrencyNotSupportedError, sample_step1)"
    using free codes by (simp only: spec [THEN conjunct1] if_True if_False not_False_eq_True)
  have c_fst: "fst (create_wallet sample_step1 ''Travel'' ''EUR'' (PyInt 500)) =
      Inr \<lparr>name = ''Travel'', currency = ''EUR'', balance = PyInt 500, expenses = []\<rparr>"
    using free codes
    by (simp only: spec [THEN conjunct1] if_True if_False not_True_eq_False fst_conv)
  have c: "create_wallet sample_step1 ''Travel'' ''EUR'' (PyInt 500) =
      (Inr \<lparr>name = ''Travel'', currency = ''EUR'', balance = PyInt 500, expenses = []\<rparr>,
       snd (create_wallet sample_step1 ''Travel'' ''EUR'' (PyInt 500)))"
    by (rule prod_eqI) (simp_all add: c_fst)
  have d: "get_wallet (snd (create_wallet sample_step1 ''Travel'' ''EUR'' (PyInt 500))) ''Travel'' =
       Inr \<lparr>name = ''Travel'', currency = ''EUR'', balance = PyInt 500, expenses = []\<rparr>"
    using spec [of "''Travel''" "''EUR''" "PyInt 500", THEN conjunct2, rule_format, OF c] by simp
  from a b c_fst d show ?thesis by simp
qed

text \<open>
  Claim C8. The two operations that mutate the manager are atomic on the three domain
  errors: when \<open>create_wallet\<close> or \<open>add_expense\<close> raises \<open>CurrencyNotSupportedError\<close>,
  \<open>WalletExistsError\<close> or \<open>WalletNotFoundError\<close>, the manager (the registry and every
  wallet in it) is exactly as before the call. \<open>create_wallet\<close> raises nothing else;
  \<open>add_expense\<close> raises, of the three, only \<open>WalletNotFoundError\<close>, and besides them only
  \<open>OverflowError\<close>. The other operations assign to no field of the manager or of a wallet
  and are functions of the manager in this development.
\<close>

theorem failing_operations_leave_manager_unchanged:
  "(fst (create_wallet m n c b) = Inl e \<longrightarrow>
      snd (create_wallet m n c b) = m \<and> e \<in> {WalletExistsError, CurrencyNotSupportedError})
   \<and> (fst (add_expense m n' d a c') = Inl e'
        \<and> e' \<in> {CurrencyNotSupportedError, WalletExistsError, WalletNotFoundError} \<longrightarrow>
      snd (add_expense m n' d a c') = m \<and> e' = WalletNotFoundError)
   \<and> (fst (add_expense m n' d a c') = Inl e' \<longrightarrow> e' \<in> {WalletNotFoundError, OverflowError})"
proof -
  have create: "fst (create_wallet m n c b) = Inl e \<longrightarrow>
      snd (create_wallet m n c b) = m \<and> e \<in> {WalletExistsError, CurrencyNotSupportedError}"
    by (auto simp: create_wallet_eq split: if_splits)
  have add: "fst (add_expense m n' d a c') = Inl e'
        \<and> e' \<in> {CurrencyNotSupportedError, WalletExistsError, WalletNotFoundError} \<longrightarrow>
      snd (add_expense m n' d a c') = m \<and> e' = WalletNotFoundError"
    by (cases "get_wallet m n'")
      (auto simp: add_expense_eq split: sum.splits dest: get_wallet_errors py_sub_errors)
  have errors: "fst (add_expense m n' d a c') = Inl e' \<longrightarrow> e' \<in> {WalletNotFoundError, OverflowError}"
    by (cases "get_wallet m n'")
      (auto simp: add_expense_eq split: sum.splits dest: get_wallet_errors py_sub_errors)
  show ?thesis
    by (intro conjI create add errors)
qed

theorem failing_operations_leave_manager_unchanged_witness:
  "fst (create_wallet sample_step1 ''personal'' ''USD'' (PyInt 0)) = Inl WalletExistsError
   \<and> snd (create_wallet sample_step1 ''personal'' ''USD'' (PyInt 0)) = sample_step1
   \<and> fst (add_expense sample_step1 ''Travel'' ''Hotel'' (PyInt 200) ''lodging'')
       = Inl WalletNotFoundError
   \<and> snd (add_expense sample_step1 ''Travel'' ''Hotel'' (PyInt 200) ''lodging'') = sample_step1"
proof -
  have a: "fst (create_wallet sample_step1 ''personal'' ''USD'' (PyInt 0)) = Inl WalletExistsError"
    by (simp add: create_wallet_eq sample_step1_eq) code_simp
  have b: "fst (add_expense sample_step1 ''Travel'' ''Hotel'' (PyInt 200) ''lodging'')
      = Inl WalletNotFoundError"
    by (simp add: add_expense_eq get_wallet_eq sample_step1_eq lower_Travel)
  show ?thesis
    using a b
      failing_operations_leave_manager_unchanged
        [of sample_step1 "''personal''" "''USD''" "PyInt 0" WalletExistsError
            "''Travel''" "''Hotel''" "PyInt 200" "''lodging''" WalletNotFoundError]
    by simp
qed

section \<open>Properties of the reports\<close>

lemma expense_lines_same_currency:
  "supported c \<Longrightarrow>
     expense_lines c c es =
       Inr (map (\<lambda>e. \<lparr>el_description = description e, el_amount = amount e,
                        el_category = category e, el_amount_in_target = amount e\<rparr>) es)"
  by (induction es) (simp_all add: convert_eq)

lemma lower_Cash: "lower ''Cash'' = ''cash''"
  by code_simp

lemma lower_Savings: "lower ''Savings'' = ''savings''"
  by code_simp

lemma init_foreign: "ExpenseManager_init (Some foreign_snapshot) = Inr foreign_manager"
  by (simp add: ExpenseManager_init_def foreign_snapshot_def foreign_manager_def
      Wallet_of_dict_def lower_Cash)

lemma get_wallet_foreign:
  "get_wallet foreign_manager ''Cash'' =
     Inr \<lparr>name = ''Cash'', currency = ''CHF'', balance = PyInt 50, expenses = []\<rparr>"
  by (simp add: get_wallet_eq foreign_manager_def lower_Cash)

text \<open>
  Claim C7, as stated, fails: a wallet loaded from a snapshot keeps whatever currency
  code the snapshot gives it, and for a code outside the table \<open>wallet_report\<close> without a
  target raises \<open>CurrencyNotSupportedError\<close> instead of returning a report.
\<close>

theorem wallet_report_default_counterexample:
  "ExpenseManager_init (Some foreign_snapshot) = Inr foreign_manager
   \<and> get_wallet foreign_manager ''Cash'' =
       Inr \<lparr>name = ''Cash'', currency = ''CHF'', balance = PyInt 50, expenses = []\<rparr>
   \<and> wallet_report foreign_manager ''Cash'' None = Inl CurrencyNotSupportedError"
proof -
  have "wallet_report foreign_manager ''Cash'' None = Inl CurrencyNotSupportedError"
    by (simp add: wallet_report_def get_wallet_foreign validate_currency_eq supported_def)
  then show ?thesis
    by (simp add: init_foreign get_wallet_foreign)
qed

text \<open>
  Claim C7, amended. When \<open>get_wallet\<close> finds wallet \<open>w\<close> and its currency is in the
  table, \<open>wallet_report\<close> without a target (\<open>None\<close>) returns the report whose target currency is the
  wallet's own, whose \<open>balance_in_target\<close> is the wallet's balance itself and whose
  expense lines carry their amounts unconverted; when the wallet's currency is not in the
  table it raises \<open>CurrencyNotSupportedError\<close>. When no registered wallet has the name
  after lower-casing, it raises \<open>WalletNotFoundError\<close>, whatever the target.
\<close>

theorem wallet_report_default_target:
  "(get_wallet m n = Inr w \<and> supported (currency w) \<longrightarrow>
      wallet_report m n None =
        Inr \<lparr>wr_wallet = name w, wr_wallet_currency = currency w,
             wr_balance = balance w, wr_balance_in_target = balance w,
             wr_expenses = map (\<lambda>e. \<lparr>el_description = description e, el_amount = amount e,
                        el_category = category e, el_amount_in_target = amount e\<rparr>) (expenses w),
             wr_target_currency = currency w\<rparr>)
   \<and> (get_wallet m n = Inr w \<and> \<not> supported (currency w) \<longrightarrow>
      wallet_report m n None = Inl CurrencyNotSupportedError)
   \<and> (lower n \<notin> set (map fst (wallets m)) \<longrightarrow> wallet_report m n t = Inl WalletNotFoundError)
   \<and> (keyed m \<and> \<not> (\<exists>w' \<in> set (list_wallets m). lower (name w') = lower n) \<longrightarrow>
      wallet_report m n t = Inl WalletNotFoundError)"
proof -
  have found: "get_wallet m n = Inr w \<and> supported (currency w) \<longrightarrow>
      wallet_report m n None =
        Inr \<lparr>wr_wallet = name w, wr_wallet_currency = currency w,
             wr_balance = balance w, wr_balance_in_target = balance w,
             wr_expenses = map (\<lambda>e. \<lparr>el_description = description e, el_amount = amount e,
                        el_category = category e, el_amount_in_target = amount e\<rparr>) (expenses w),
             wr_target_currency = currency w\<rparr>"
    by (simp add: wallet_report_def Let_def validate_currency_eq convert_eq expense_lines_same_currency)
  have foreign: "get_wallet m n = Inr w \<and> \<not> supported (currency w) \<longrightarrow>
      wallet_report m n None = Inl CurrencyNotSupportedError"
    by (simp add: wallet_report_def Let_def validate_currency_eq)
  have missing: "wallet_report m n t = Inl WalletNotFoundError"
    if "lower n \<notin> set (map fst (wallets m))"
  proof -
    from that have "get_wallet m n = Inl WalletNotFoundError"
      by (simp add: get_wallet_missing_iff)
    then show ?thesis
      by (simp add: wallet_report_def)
  qed
  have missing': "wallet_report m n t = Inl WalletNotFoundError"
    if "keyed m \<and> \<not> (\<exists>w' \<in> set (list_wallets m). lower (name w') = lower n)"
  proof -
    from that have "lower n \<notin> set (map fst (wallets m))"
      using keyed_key_iff [of m "lower n"] by blast
    then show ?thesis by (rule missing)
  qed
  have absent: "lower n \<notin> set (map fst (wallets m)) \<longrightarrow>
      wallet_report m n t = Inl WalletNotFoundError"
    using missing by (rule impI)
  have absent': "keyed m \<and> \<not> (\<exists>w' \<in> set (list_wallets m). lower (name w') = lower n) \<longrightarrow>
      wallet_report m n t = Inl WalletNotFoundError"
    using missing' by (rule impI)
  show ?thesis
    by (intro conjI found foreign absent absent')
qed

lemma create_sample_manager_eq:
  "create_sample_manager =
     \<lparr>wallets =
        [(''personal'', \<lparr>name = ''Personal'', currency = ''USD'', balance = PyInt 880,
            expenses = [\<lparr>description = ''Groceries'', amount = PyInt 120,
                         category = ''food''\<rparr>]\<rparr>),
         (''travel'', \<lparr>name = ''Travel'', currency = ''EUR'', balance = PyInt 300,
            expenses = [\<lparr>description = ''Hotel'', amount = PyInt 200,
                         category = ''lodging''\<rparr>]\<rparr>)]\<rparr>"
  by (simp add: create_sample_manager_def sample_step3_def sample_step2_def sample_step1_eq
      create_wallet_eq add_expense_eq get_wallet_eq supported_def lower_Personal lower_Travel)

lemma get_wallet_sample_Travel:
  "get_wallet create_sample_manager ''Travel'' =
     Inr \<lparr>name = ''Travel'', currency = ''EUR'', balance = PyInt 300,
          expenses = [\<lparr>description = ''Hotel'', amount = PyInt 200, category = ''lodging''\<rparr>]\<rparr>"
  by (simp add: create_sample_manager_eq get_wallet_eq lower_Travel)

lemma sample_has_no_Savings:
  "lower ''Savings'' \<notin> set (map fst (wallets create_sample_manager))"
  by (simp add: create_sample_manager_eq lower_Savings)

theorem wallet_report_default_target_witness:
  "wallet_report create_sample_manager ''Travel'' None =
     Inr \<lparr>wr_wallet = ''Travel'', wr_wallet_currency = ''EUR'',
          wr_balance = PyInt 300, wr_balance_in_target = PyInt 300,
          wr_expenses = [\<lparr>el_description = ''Hotel'', el_amount = PyInt 200,
                          el_category = ''lodging'', el_amount_in_target = PyInt 200\<rparr>],
          wr_target_currency = ''EUR''\<rparr>
   \<and> wallet_report create_sample_manager ''Savings'' None = Inl WalletNotFoundError
   \<and> wallet_report foreign_manager ''Cash'' None = Inl CurrencyNotSupportedError"
proof -
  have codes: "supported ''EUR''" "\<not> supported ''CHF''"
    by (simp_all add: supported_def)
  show ?thesis
    using codes get_wallet_sample_Travel sample_has_no_Savings get_wallet_foreign
      wallet_report_default_target
        [of create_sample_manager "''Travel''"
          "\<lparr>name = ''Travel'', currency = ''EUR'', balance = PyInt 300,
            expenses = [\<lparr>description = ''Hotel'', amount = PyInt 200, category = ''lodging''\<rparr>]\<rparr>" None]
      wallet_report_default_target
        [of create_sample_manager "''Savings''" _ None]
      wallet_report_default_target
        [of foreign_manager "''Cash''"
          "\<lparr>name = ''Cash'', currency = ''CHF'', balance = PyInt 50, expenses = []\<rparr>" None]
    by simp
qed




























section \<open>Snapshots\<close>

lemma Expense_of_asdict: "Expense_of_dict (asdict e) = Inr e"
  by (simp add: Expense_of_dict_def asdict_def)

lemma Expenses_of_asdicts: "Expenses_of_dicts (map asdict es) = Inr es"
  by (induction es) (simp_all add: Expense_of_asdict)

lemma Wallet_of_to_dict:
  "Wallet_of_dict
     \<lparr>wd_name = Some (name w), wd_currency = Some (currency w), wd_balance = Some (balance w),
      wd_expenses = Some (map asdict (expenses w))\<rparr> = Inr w"
  by (simp add: Wallet_of_dict_def Expenses_of_asdicts)

lemma init_loop_serialized:
  "distinct (map fst (acc @ reg)) \<Longrightarrow> list_all (\<lambda>(k, w). k = lower (name w)) reg \<Longrightarrow>
     init_loop acc
       (map (\<lambda>w. \<lparr>wd_name = Some (name w), wd_currency = Some (currency w),
                   wd_balance = Some (balance w),
                   wd_expenses = Some (map asdict (expenses w))\<rparr>) (map snd reg))
     = Inr (acc @ reg)"
proof (induction reg arbitrary: acc)
  case Nil
  then show ?case by simp
next
  case (Cons p reg)
  obtain k w where p: "p = (k, w)" by (cases p)
  from Cons.prems p have k: "k = lower (name w)" and fresh: "k \<notin> set (map fst acc)"
    by auto
  from Cons.prems p have "distinct (map fst ((acc @ [(k, w)]) @ reg))"
    and "list_all (\<lambda>(k, w). k = lower (name w)) reg"
    by auto
  then have "init_loop (acc @ [(k, w)])
       (map (\<lambda>w. \<lparr>wd_name = Some (name w), wd_currency = Some (currency w),
                   wd_balance = Some (balance w),
                   wd_expenses = Some (map asdict (expenses w))\<rparr>) (map snd reg))
     = Inr ((acc @ [(k, w)]) @ reg)"
    by (rule Cons.IH)
  with p k fresh show ?case
    by (simp add: Wallet_of_to_dict dict_set_new)
qed

lemma init_empty: "ExpenseManager_init (Some \<lparr>dd_wallets = Some []\<rparr>) = Inr empty_manager"
  by (simp add: ExpenseManager_init_def empty_manager_def)

lemma keyed_create_sample_manager: "keyed create_sample_manager"
  unfolding create_sample_manager_def sample_step3_def sample_step2_def
  by (intro keyed_add_expense keyed_create_wallet keyed_sample_step1)

lemma init_of_to_dict: "keyed m \<Longrightarrow> ExpenseManager_init (Some (to_dict m)) = Inr m"
proof -
  assume "keyed m"
  then have "distinct (map fst ([] @ wallets m))"
    and "list_all (\<lambda>(k, w). k = lower (name w)) (wallets m)"
    by (simp_all add: keyed_def)
  then have "init_loop []
     (map (\<lambda>w. \<lparr>wd_name = Some (name w), wd_currency = Some (currency w),
                 wd_balance = Some (balance w),
                 wd_expenses = Some (map asdict (expenses w))\<rparr>) (map snd (wallets m)))
   = Inr ([] @ wallets m)"
    by (rule init_loop_serialized)
  then show "ExpenseManager_init (Some (to_dict m)) = Inr m"
    by (simp add: ExpenseManager_init_def to_dict_def list_wallets_def)
qed

text \<open>
  Claim C9. For every manager whose registry is keyed by lower-cased names (every
  manager the constructor and the operations produce), constructing a manager from
  \<open>to_dict\<close>'s output succeeds and gives the same registry, in the same order. \<open>to_dict\<close>
  returns the dictionary with the one key \<open>wallets\<close>, holding for each wallet in
  \<open>list_wallets\<close> order a dictionary with exactly \<open>name\<close>, \<open>currency\<close>, \<open>balance\<close> and
  \<open>expenses\<close>, the latter holding for each expense exactly \<open>description\<close>, \<open>amount\<close> and
  \<open>category\<close>. Constructing from \<open>{"wallets": []}\<close> and serializing gives
  \<open>{"wallets": []}\<close> back.
\<close>

theorem serialize_round_trip:
  "(keyed m \<longrightarrow> ExpenseManager_init (Some (to_dict m)) = Inr m)
   \<and> to_dict m =
       \<lparr>dd_wallets = Some (map (\<lambda>w.
          \<lparr>wd_name = Some (name w), wd_currency = Some (currency w),
           wd_balance = Some (balance w),
           wd_expenses = Some (map (\<lambda>e.
             \<lparr>ed_description = Some (description e), ed_amount = Some (amount e),
              ed_category = Some (category e)\<rparr>) (expenses w))\<rparr>) (list_wallets m))\<rparr>
   \<and> (\<forall>m0. ExpenseManager_init (Some \<lparr>dd_wallets = Some []\<rparr>) = Inr m0 \<longrightarrow>
         to_dict m0 = \<lparr>dd_wallets = Some []\<rparr>)
   \<and> (\<exists>m0. ExpenseManager_init (Some \<lparr>dd_wallets = Some []\<rparr>) = Inr m0)"
proof (intro conjI)
  show "keyed m \<longrightarrow> ExpenseManager_init (Some (to_dict m)) = Inr m"
    by (simp add: init_of_to_dict)
next
  show "to_dict m =
       \<lparr>dd_wallets = Some (map (\<lambda>w.
          \<lparr>wd_name = Some (name w), wd_currency = Some (currency w),
           wd_balance = Some (balance w),
           wd_expenses = Some (map (\<lambda>e.
             \<lparr>ed_description = Some (description e), ed_amount = Some (amount e),
              ed_category = Some (category e)\<rparr>) (expenses w))\<rparr>) (list_wallets m))\<rparr>"
    by (simp add: to_dict_def asdict_def [abs_def])
next
  show "\<forall>m0. ExpenseManager_init (Some \<lparr>dd_wallets = Some []\<rparr>) = Inr m0 \<longrightarrow>
         to_dict m0 = \<lparr>dd_wallets = Some []\<rparr>"
    by (simp add: init_empty to_dict_def list_wallets_def empty_manager_def)
next
  show "\<exists>m0. ExpenseManager_init (Some \<lparr>dd_wallets = Some []\<rparr>) = Inr m0"
    by (simp add: init_empty)
qed

theorem serialize_round_trip_witness:
  "keyed create_sample_manager
   \<and> ExpenseManager_init (Some (to_dict create_sample_manager)) = Inr create_sample_manager
   \<and> to_dict empty_manager = \<lparr>dd_wallets = Some []\<rparr>"
  using keyed_create_sample_manager init_empty
    serialize_round_trip [of create_sample_manager, THEN conjunct1]
    serialize_round_trip [of empty_manager, THEN conjunct2, THEN conjunct2, THEN conjunct1]
  by simp

section \<open>Snapshots with clashing names\<close>

lemma init_loop_parsed:
  "map Wallet_of_dict wds = map Inr ws \<Longrightarrow>
     \<exists>r. init_loop acc wds = Inr r
        \<and> (\<forall>k. map_of r k =
              (case map_of (rev (map (\<lambda>w. (lower (name w), w)) ws)) k of
                 None \<Rightarrow> map_of acc k
               | Some w \<Rightarrow> Some w))
        \<and> set (map fst r) = set (map fst acc) \<union> (\<lambda>w. lower (name w)) ` set ws"
proof (induction wds arbitrary: acc ws)
  case Nil
  then show ?case by simp
next
  case (Cons wd wds)
  then obtain w ws' where ws: "ws = w # ws'" and w: "Wallet_of_dict wd = Inr w"
    and rest: "map Wallet_of_dict wds = map Inr ws'"
    by (cases ws) auto
  let ?acc = "dict_set (lower (name w)) w acc"
  from rest obtain r where r: "init_loop ?acc wds = Inr r"
    and lookup: "\<forall>k. map_of r k =
        (case map_of (rev (map (\<lambda>w. (lower (name w), w)) ws')) k of
           None \<Rightarrow> map_of ?acc k
         | Some w \<Rightarrow> Some w)"
    and keys: "set (map fst r) = set (map fst ?acc) \<union> (\<lambda>w. lower (name w)) ` set ws'"
    using Cons.IH [of ws' ?acc] by blast
  have "\<forall>k. map_of r k =
        (case map_of (rev (map (\<lambda>w. (lower (name w), w)) ws)) k of
           None \<Rightarrow> map_of acc k
         | Some w \<Rightarrow> Some w)"
    using lookup ws by (auto simp: map_of_dict_set map_add_def split: option.splits)
  moreover have "set (map fst r) = set (map fst acc) \<union> (\<lambda>w. lower (name w)) ` set ws"
    using keys ws by (auto simp: keys_dict_set)
  ultimately show ?case
    using w r by simp
qed

lemma keyed_single_entry:
  "distinct (map fst r) \<Longrightarrow> list_all (\<lambda>(k, w). k = lower (name w)) r \<Longrightarrow>
     map_of r k = Some w \<Longrightarrow> filter (\<lambda>w. lower (name w) = k) (map snd r) = [w]"
proof (induction r)
  case Nil
  then show ?case by simp
next
  case (Cons p r)
  obtain k' w' where p: "p = (k', w')" by (cases p)
  show ?case
  proof (cases "k' = k")
    case True
    with Cons.prems p have w': "w' = w" and k: "lower (name w') = k"
      and none: "k \<notin> fst ` set r"
      by auto
    have "filter (\<lambda>w. lower (name w) = k) (map snd r) = []"
    proof -
      have "\<forall>q \<in> set r. lower (name (snd q)) \<noteq> k"
        using Cons.prems(2) none by (force simp: list_all_iff)
      then show ?thesis
        by (simp add: filter_empty_conv)
    qed
    with p w' k show ?thesis by simp
  next
    case False
    with Cons.prems p have "filter (\<lambda>w. lower (name w) = k) (map snd r) = [w]"
      by (intro Cons.IH) auto
    moreover from Cons.prems(2) p False have "lower (name w') \<noteq> k"
      by simp
    ultimately show ?thesis
      using p by simp
  qed
qed

lemma init_never_raises_domain_error:
  "ExpenseManager_init data \<noteq> Inl WalletExistsError"
proof -
  have e: "Expense_of_dict x \<noteq> Inl WalletExistsError" for x
    by (simp add: Expense_of_dict_def split: option.splits)
  have es: "Expenses_of_dicts xs \<noteq> Inl WalletExistsError" for xs
    using e by (induction xs) (auto split: sum.splits)
  have w: "Wallet_of_dict wd \<noteq> Inl WalletExistsError" for wd
    using es by (auto simp: Wallet_of_dict_def split: option.splits sum.splits)
  have l: "init_loop acc wds \<noteq> Inl WalletExistsError" for acc wds
    using w by (induction wds arbitrary: acc) (auto split: sum.splits)
  show ?thesis
    using l by (auto simp: ExpenseManager_init_def Let_def split: sum.splits)
qed

lemma init_loop_parsed_empty:
  assumes "map Wallet_of_dict wds = map Inr ws"
  shows "\<exists>r. init_loop [] wds = Inr r
        \<and> (\<forall>k. map_of r k = map_of (rev (map (\<lambda>w. (lower (name w), w)) ws)) k)
        \<and> set (map fst r) = (\<lambda>w. lower (name w)) ` set ws"
proof -
  from init_loop_parsed [OF assms, of "[]"] obtain r where r: "init_loop [] wds = Inr r"
    and lookup: "\<And>k. map_of r k =
        (case map_of (rev (map (\<lambda>w. (lower (name w), w)) ws)) k of
           None \<Rightarrow> map_of [] k
         | Some w \<Rightarrow> Some w)"
    and keys: "set (map fst r) = set (map fst []) \<union> (\<lambda>w. lower (name w)) ` set ws"
    by (elim exE conjE) simp
  have "map_of r k = map_of (rev (map (\<lambda>w. (lower (name w), w)) ws)) k" for k
    using lookup [of k] by (cases "map_of (rev (map (\<lambda>w. (lower (name w), w)) ws)) k") simp_all
  with r keys show ?thesis
    by simp
qed

lemma not_distinct_shorter: "\<not> distinct xs \<Longrightarrow> card (set xs) < length xs"
  using card_distinct [of xs] card_length [of xs] by linarith

lemma asdict_inject: "asdict e = asdict e' \<Longrightarrow> e = e'"
  by (cases e, cases e') (simp add: asdict_def)

lemma wallet_entry_inject: "wallet_entry w = wallet_entry w' \<Longrightarrow> w = w'"
proof -
  assume eq: "wallet_entry w = wallet_entry w'"
  then have "map asdict (expenses w) = map asdict (expenses w')"
    by (simp add: wallet_entry_def)
  moreover have "inj asdict"
    by (rule injI) (rule asdict_inject)
  ultimately have "expenses w = expenses w'"
    by (simp add: inj_map_eq_map)
  with eq show ?thesis
    by (cases w, cases w') (simp add: wallet_entry_def)
qed

lemma to_dict_entries: "to_dict m = \<lparr>dd_wallets = Some (map wallet_entry (list_wallets m))\<rparr>"
  by (simp add: to_dict_def wallet_entry_def [abs_def])

lemma filter_entries:
  "filter (\<lambda>wd. map_option lower (wd_name wd) = Some k) (map wallet_entry ws)
     = map wallet_entry (filter (\<lambda>w. lower (name w) = k) ws)"
  by (induction ws) (simp_all add: wallet_entry_def)

lemma parse_clash_first:
  "Wallet_of_dict clash_first
     = Inr \<lparr>name = ''Travel'', currency = ''EUR'', balance = PyInt 500, expenses = []\<rparr>"
  by (simp add: Wallet_of_dict_def clash_first_def)

lemma parse_clash_second:
  "Wallet_of_dict clash_second
     = Inr \<lparr>name = ''TRAVEL'', currency = ''USD'', balance = PyFloat (Finite 0),
            expenses = [\<lparr>description = ''Taxi'', amount = PyInt 30,
                         category = ''uncategorized''\<rparr>]\<rparr>"
  by (simp add: Wallet_of_dict_def clash_second_def Expense_of_dict_def)

lemma lower_TRAVEL: "lower ''TRAVEL'' = ''travel''"
  by code_simp

text \<open>
  Claim C10, as stated, fails: it speaks of every snapshot with two clashing names, but
  the constructor indexes \<^verbatim>\<open>"name"\<close> and \<^verbatim>\<open>"currency"\<close> in every entry, and a snapshot
  that has the clash and also an entry without \<^verbatim>\<open>"currency"\<close> builds no manager at all:
  the constructor raises \<open>KeyError\<close>.
\<close>

theorem clashing_names_counterexample:
  "map_option lower (wd_name clash_first) = map_option lower (wd_name clash_second)
   \<and> ExpenseManager_init (Some \<lparr>dd_wallets = Some [clash_first, clash_second, no_currency]\<rparr>)
       = Inl (KeyError ''currency'')"
  by (simp add: ExpenseManager_init_def parse_clash_first parse_clash_second)
    (simp add: clash_first_def clash_second_def no_currency_def Wallet_of_dict_def
      lower_Travel lower_TRAVEL)

text \<open>
  Claim C10, amended. Take a snapshot every entry of which carries the keys the
  constructor indexes, so that the entries describe the wallets \<open>ws\<close>, and let \<open>ws\<close> hold a
  wallet \<open>w1\<close> and, later, a wallet \<open>w2\<close> with the same lower-cased name, \<open>w2\<close> being the
  last with that name. Then the constructor succeeds (it never raises
  \<open>WalletExistsError\<close>) and every lower-cased name resolves to the last wallet of the
  snapshot with it: both names resolve to \<open>w2\<close>, which is the only wallet of the
  registry with this lower-cased name, and \<open>w1\<close>, unless it equals \<open>w2\<close>, is not in the
  registry. Re-serializing writes the entry of each registered wallet: the entry of
  \<open>w2\<close> is the only one written with this lower-cased name, the entry of \<open>w1\<close> (unless
  equal) is not written, the list written is shorter than the snapshot's, and
  constructing from it gives the same manager again.
\<close>

theorem clashing_names_last_wins:
  assumes snap: "dd_wallets d = Some wds"
    and parse: "map Wallet_of_dict wds = map Inr ws"
    and split: "ws = pre @ w1 # mid @ w2 # post"
    and clash: "lower (name w1) = lower (name w2)"
    and last: "\<forall>w \<in> set post. lower (name w) \<noteq> lower (name w2)"
  shows "ExpenseManager_init (Some d) \<noteq> Inl WalletExistsError
     \<and> (\<exists>m. ExpenseManager_init (Some d) = Inr m
          \<and> (\<forall>k. map_of (wallets m) k = map_of (rev (map (\<lambda>w. (lower (name w), w)) ws)) k)
          \<and> get_wallet m (name w1) = Inr w2
          \<and> get_wallet m (name w2) = Inr w2
          \<and> filter (\<lambda>w. lower (name w) = lower (name w2)) (list_wallets m) = [w2]
          \<and> (w1 \<noteq> w2 \<longrightarrow> w1 \<notin> set (list_wallets m))
          \<and> length (list_wallets m) < length wds
          \<and> (\<exists>out. to_dict m = \<lparr>dd_wallets = Some out\<rparr>
                \<and> out = map wallet_entry (list_wallets m)
                \<and> filter (\<lambda>wd. map_option lower (wd_name wd) = Some (lower (name w2))) out
                    = [wallet_entry w2]
                \<and> (w1 \<noteq> w2 \<longrightarrow> wallet_entry w1 \<notin> set out)
                \<and> length out < length wds)
          \<and> ExpenseManager_init (Some (to_dict m)) = Inr m)"
proof -
  let ?k = "lower (name w2)"
  let ?kv = "\<lambda>w. (lower (name w), w)"
  from parse obtain r where r: "init_loop [] wds = Inr r"
    and lookup: "\<forall>k. map_of r k = map_of (rev (map ?kv ws)) k"
    and keys: "set (map fst r) = (\<lambda>w. lower (name w)) ` set ws"
    using init_loop_parsed_empty [of wds ws] by blast
  let ?m = "\<lparr>wallets = r\<rparr>"
  have init: "ExpenseManager_init (Some d) = Inr ?m"
    using snap r by (simp add: ExpenseManager_init_def)
  have keyed: "keyed ?m"
    using r by (rule keyed_init_loop) (simp add: keyed_def)
  then have dist: "distinct (map fst r)" and named: "list_all (\<lambda>(k, w). k = lower (name w)) r"
    by (simp_all add: keyed_def)
  have "map_of (rev (map ?kv post)) ?k = None"
    using last by (force simp: map_of_eq_None_iff)
  then have "map_of (rev (map ?kv ws)) ?k = Some w2"
    by (simp add: split map_add_def)
  with lookup have found: "map_of r ?k = Some w2"
    by simp
  from dist named found have only: "filter (\<lambda>w. lower (name w) = ?k) (map snd r) = [w2]"
    by (rule keyed_single_entry)
  have gone: "w1 \<notin> set (map snd r)" if "w1 \<noteq> w2"
  proof
    assume "w1 \<in> set (map snd r)"
    with clash have "w1 \<in> set (filter (\<lambda>w. lower (name w) = ?k) (map snd r))"
      by simp
    with only that show False
      by simp
  qed
  have "\<not> distinct (map (\<lambda>w. lower (name w)) ws)"
    using clash by (simp add: split)
  then have "card (set (map (\<lambda>w. lower (name w)) ws)) < length (map (\<lambda>w. lower (name w)) ws)"
    by (rule not_distinct_shorter)
  moreover have "length r = card (set (map fst r))"
    using dist distinct_card [of "map fst r"] by simp
  moreover have "length ws = length wds"
    using parse by (metis length_map)
  ultimately have shorter: "length r < length wds"
    using keys by simp
  have out: "to_dict ?m = \<lparr>dd_wallets = Some (map wallet_entry (list_wallets ?m))\<rparr>"
    by (rule to_dict_entries)
  have written: "filter (\<lambda>wd. map_option lower (wd_name wd) = Some ?k)
      (map wallet_entry (list_wallets ?m)) = [wallet_entry w2]"
    unfolding filter_entries using only by (simp add: list_wallets_def)
  have unwritten: "wallet_entry w1 \<notin> set (map wallet_entry (list_wallets ?m))" if "w1 \<noteq> w2"
    using gone [OF that] by (auto simp: list_wallets_def dest: wallet_entry_inject)
  have again: "ExpenseManager_init (Some (to_dict ?m)) = Inr ?m"
    using keyed by (rule init_of_to_dict)
  have serialized: "\<exists>out. to_dict ?m = \<lparr>dd_wallets = Some out\<rparr>
                \<and> out = map wallet_entry (list_wallets ?m)
                \<and> filter (\<lambda>wd. map_option lower (wd_name wd) = Some (lower (name w2))) out
                    = [wallet_entry w2]
                \<and> (w1 \<noteq> w2 \<longrightarrow> wallet_entry w1 \<notin> set out)
                \<and> length out < length wds"
    using out written unwritten shorter by (simp add: list_wallets_def)
  have "get_wallet ?m (name w1) = Inr w2" and "get_wallet ?m (name w2) = Inr w2"
    using found clash by (simp_all add: get_wallet_eq)
  moreover have "\<forall>k. map_of (wallets ?m) k = map_of (rev (map ?kv ws)) k"
    using lookup by simp
  moreover have "filter (\<lambda>w. lower (name w) = ?k) (list_wallets ?m) = [w2]"
    using only by (simp add: list_wallets_def)
  moreover have "w1 \<noteq> w2 \<longrightarrow> w1 \<notin> set (list_wallets ?m)"
    using gone by (simp add: list_wallets_def)
  moreover have "length (list_wallets ?m) < length wds"
    using shorter by (simp add: list_wallets_def)
  ultimately have "\<exists>m. ExpenseManager_init (Some d) = Inr m
          \<and> (\<forall>k. map_of (wallets m) k = map_of (rev (map (\<lambda>w. (lower (name w), w)) ws)) k)
          \<and> get_wallet m (name w1) = Inr w2
          \<and> get_wallet m (name w2) = Inr w2
          \<and> filter (\<lambda>w. lower (name w) = lower (name w2)) (list_wallets m) = [w2]
          \<and> (w1 \<noteq> w2 \<longrightarrow> w1 \<notin> set (list_wallets m))
          \<and> length (list_wallets m) < length wds
          \<and> (\<exists>out. to_dict m = \<lparr>dd_wallets = Some out\<rparr>
                \<and> out = map wallet_entry (list_wallets m)
                \<and> filter (\<lambda>wd. map_option lower (wd_name wd) = Some (lower (name w2))) out
                    = [wallet_entry w2]
                \<and> (w1 \<noteq> w2 \<longrightarrow> wallet_entry w1 \<notin> set out)
                \<and> length out < length wds)
          \<and> ExpenseManager_init (Some (to_dict m)) = Inr m"
    using init serialized again by (intro exI [of _ ?m] conjI)
  then show ?thesis
    using init_never_raises_domain_error [of "Some d"] by (rule conjI [rotated])
qed

theorem clashing_names_last_wins_witness:
  "\<exists>m. ExpenseManager_init (Some \<lparr>dd_wallets = Some [clash_first, clash_second]\<rparr>) = Inr m
     \<and> get_wallet m ''Travel'' =
         Inr \<lparr>name = ''TRAVEL'', currency = ''USD'', balance = PyFloat (Finite 0),
              expenses = [\<lparr>description = ''Taxi'', amount = PyInt 30,
                           category = ''uncategorized''\<rparr>]\<rparr>
     \<and> length (list_wallets m) < 2
     \<and> to_dict m = \<lparr>dd_wallets = Some (map wallet_entry (list_wallets m))\<rparr>"
proof -
  let ?w1 = "\<lparr>name = ''Travel'', currency = ''EUR'', balance = PyInt 500, expenses = []\<rparr>"
  let ?w2 = "\<lparr>name = ''TRAVEL'', currency = ''USD'', balance = PyFloat (Finite 0),
              expenses = [\<lparr>description = ''Taxi'', amount = PyInt 30,
                           category = ''uncategorized''\<rparr>]\<rparr>"
  have snap: "dd_wallets \<lparr>dd_wallets = Some [clash_first, clash_second]\<rparr>
      = Some [clash_first, clash_second]"
    by simp
  have parse: "map Wallet_of_dict [clash_first, clash_second] = map Inr [?w1, ?w2]"
    by (simp add: parse_clash_first parse_clash_second)
  have split: "[?w1, ?w2] = [] @ ?w1 # [] @ ?w2 # []"
    by simp
  have clash: "lower (name ?w1) = lower (name ?w2)"
    by (simp add: lower_Travel lower_TRAVEL)
  have last: "\<forall>w \<in> set ([] :: Wallet list). lower (name w) \<noteq> lower (name ?w2)"
    by simp
  from clashing_names_last_wins [OF snap parse split clash last]
  show ?thesis
    by auto
qed

end
